theory Spec2Isabelle
  imports Complex_Main "HOL-Library.Sublist" "HOL-Library.Log_Nat"
begin

section \<open>Numbers\<close>

text \<open>
  A JavaScript \<^verbatim>\<open>number\<close> is an IEEE-754 binary64 value. Every finite one is a rational,
  and \<^verbatim>\<open><=\<close>, \<^verbatim>\<open>>=\<close> on finite doubles are the order of the rationals, so the
  magnitudes of the payload and the slider values are modelled as \<^typ>\<open>rat\<close>: the payload
  is JSON, which has no literal for NaN or an infinity. The two zeros of binary64 compare
  equal and are one value here.

  \<^verbatim>\<open>+\<close> and \<^verbatim>\<open>/\<close> round their exact result to the nearest double, a tie going to the even
  significand: 53 significant bits for a normal result, a multiple of \<open>2^-1074\<close> below
  \<open>2^-1022\<close>. A result that rounds to \<open>2^1024\<close> or beyond is an infinity, a division of
  zero by zero is NaN, and whatever is computed from either is again one of the two.
\<close>

definition rne :: "rat \<Rightarrow> int" where
  \<comment> \<open>the nearest integer, a tie going to the even one\<close>
  "rne y =
     (let f = \<lfloor>y\<rfloor>; r = y - of_int f
      in if r < 1 / 2 then f
         else if 1 / 2 < r then f + 1
         else if even f then f else f + 1)"

definition ilog2 :: "rat \<Rightarrow> int" where
  \<comment> \<open>the binary exponent \<open>e\<close> of a non-zero \<open>x\<close>: \<open>2^e \<le> |x| < 2^(e+1)\<close>\<close>
  "ilog2 x =
     (let (a, b) = quotient_of \<bar>x\<bar>; d = bitlen a - bitlen b
      in if 2 powi d \<le> \<bar>x\<bar> then d else d - 1)"

definition round64 :: "rat \<Rightarrow> rat" where
  \<comment> \<open>rounding to nearest, ties to even, with the exponent unbounded above\<close>
  "round64 x =
     (if x = 0 then 0
      else let e = max (ilog2 x) (- 1022); q = 2 powi (e - 52)
           in of_int (rne (x / q)) * q)"

datatype double = Fin rat | NonFinite

definition to_double :: "rat \<Rightarrow> double" where
  \<comment> \<open>the double that an operation with the exact result \<open>x\<close> returns\<close>
  "to_double x = (let r = round64 x in if \<bar>r\<bar> < 2 ^ 1024 then Fin r else NonFinite)"

fun fadd :: "double \<Rightarrow> rat \<Rightarrow> double" where
  \<comment> \<open>\<^verbatim>\<open>a + b\<close> of an accumulator and a magnitude\<close>
  "fadd (Fin a) b = to_double (a + b)"
| "fadd NonFinite b = NonFinite"

fun fdiv :: "double \<Rightarrow> nat \<Rightarrow> double" where
  \<comment> \<open>\<^verbatim>\<open>a / n\<close> of a sum and a length\<close>
  "fdiv (Fin a) n = (if n = 0 then NonFinite else to_double (a / of_nat n))"
| "fdiv NonFinite n = NonFinite"

text \<open>
  The unit roundoff of binary64, the smallest normal double, and the bound on the
  rounding error of a mean of \<open>n\<close> numbers of absolute value at most \<open>M\<close> that is proved
  below: \<open>n\<close> rounded additions and one rounded division.
\<close>

definition u64 :: rat where
  "u64 = 1 / 2 ^ 53"

definition tiny64 :: rat where
  "tiny64 = 1 / 2 ^ 1022"

definition rounding_tolerance :: "nat \<Rightarrow> rat \<Rightarrow> rat" where
  "rounding_tolerance n M = ((1 + u64) ^ (n + 1) - 1) * (M + tiny64)"

definition magnitude_bound :: "rat list \<Rightarrow> rat" where
  \<comment> \<open>the largest absolute value of a non-empty list\<close>
  "magnitude_bound ms = max \<bar>Min (set ms)\<bar> \<bar>Max (set ms)\<bar>"

text \<open>
  \<^verbatim>\<open>properties.mag\<close> is declared \<^verbatim>\<open>number\<close>, but the feed sends \<^verbatim>\<open>null\<close> for some events
  and the code tests for \<^verbatim>\<open>null\<close> and \<^verbatim>\<open>undefined\<close>, so the field holds one of three things.
\<close>

datatype jsval = Null | Undefined | Num rat

fun ToNumber :: "jsval \<Rightarrow> rat option" where
  \<comment> \<open>the coercion of a relational operator; \<open>None\<close> is NaN\<close>
  "ToNumber Null = Some 0"
| "ToNumber Undefined = None"
| "ToNumber (Num r) = Some r"

definition js_ge :: "jsval \<Rightarrow> rat \<Rightarrow> bool" where
  \<comment> \<open>\<^verbatim>\<open>v >= y\<close>; a comparison with NaN is false\<close>
  "js_ge v y = (case ToNumber v of None \<Rightarrow> False | Some x \<Rightarrow> y \<le> x)"

definition js_le :: "jsval \<Rightarrow> rat \<Rightarrow> bool" where
  \<comment> \<open>\<^verbatim>\<open>v <= y\<close>\<close>
  "js_le v y = (case ToNumber v of None \<Rightarrow> False | Some x \<Rightarrow> x \<le> y)"

section \<open>Data model (lib/types)\<close>

text \<open>
  The interfaces of the types module, with the fields the components read. The other
  fields of \<^verbatim>\<open>EarthquakeProperties\<close> and the \<^verbatim>\<open>metadata\<close> of the response are passed
  through from the feed and never read.

  \<^verbatim>\<open>features\<close> is declared an array, but the response is whatever JSON document the
  endpoint sent, and the page tests \<^verbatim>\<open>data?.features\<close> before it filters: \<open>None\<close> is a
  document without that field (an error document, say). Where the field is present it
  is an array of events, as declared.
\<close>

record earthquake_properties =
  mag :: jsval
  place :: string
  time :: int
  tsunami :: int

record earthquake_geometry =
  coordinates :: "rat \<times> rat \<times> rat"

record earthquake =
  properties :: earthquake_properties
  geometry :: earthquake_geometry
  ident :: string

record earthquake_response =
  features :: "earthquake list option"

datatype timeframe = Hour | Day | Week | Month

record statistics =
  total :: nat
  avgMagnitude :: double
  maxMagnitude :: rat
  significant :: nat

record filter_state =
  timeframe :: timeframe
  minMagnitude :: rat
  maxMagnitude :: rat

section \<open>The derivations of the page component\<close>

fun endpoint :: "timeframe \<Rightarrow> string" where
  "endpoint Hour = ''all_hour''"
| "endpoint Day = ''all_day''"
| "endpoint Week = ''all_week''"
| "endpoint Month = ''all_month''"

definition filteredEarthquakes :: "earthquake_response option \<Rightarrow> filter_state \<Rightarrow> earthquake list" where
  \<comment> \<open>\<open>None\<close> is the hook's \<^verbatim>\<open>data\<close> before the first response; the guard is \<^verbatim>\<open>!data?.features\<close>\<close>
  "filteredEarthquakes data filters =
     (case data of
        None \<Rightarrow> []
      | Some d \<Rightarrow>
          (case features d of
             None \<Rightarrow> []
           | Some fs \<Rightarrow>
               filter (\<lambda>eq. let m = mag (properties eq)
                            in m \<noteq> Null \<and> m \<noteq> Undefined
                               \<and> js_ge m (minMagnitude filters)
                               \<and> js_le m (filter_state.maxMagnitude filters))
                      fs))"

fun number_guard :: "jsval \<Rightarrow> rat option" where
  \<comment> \<open>the type guard \<^verbatim>\<open>mag is number => mag !== null && mag !== undefined\<close>\<close>
  "number_guard Null = None"
| "number_guard Undefined = None"
| "number_guard (Num r) = Some r"

definition magnitudes :: "earthquake list \<Rightarrow> rat list" where
  "magnitudes eqs = List.map_filter number_guard (map (\<lambda>eq. mag (properties eq)) eqs)"

fun Math_max :: "rat list \<Rightarrow> rat" where
  \<comment> \<open>of at least one argument; \<^verbatim>\<open>Math.max()\<close> is \<open>-Infinity\<close>, which the caller's guard excludes\<close>
  "Math_max [m] = m"
| "Math_max (m # ms) = max m (Math_max ms)"

definition stats :: "earthquake list \<Rightarrow> statistics" where
  "stats eqs =
     (if length eqs = 0
      then \<lparr>total = 0, avgMagnitude = Fin 0, statistics.maxMagnitude = 0, significant = 0\<rparr>
      else let ms = magnitudes eqs
           in if length ms = 0
              then \<lparr>total = length eqs, avgMagnitude = Fin 0, statistics.maxMagnitude = 0, significant = 0\<rparr>
              else \<lparr>total = length eqs,
                    avgMagnitude = fdiv (foldl fadd (Fin 0) ms) (length ms),
                    statistics.maxMagnitude = Math_max ms,
                    significant =
                      length (filter (\<lambda>eq. mag (properties eq) \<noteq> Null \<and> js_ge (mag (properties eq)) 5) eqs)\<rparr>)"

section \<open>Sample events\<close>

text \<open>
  The events of the scenario of section 8 of the specification: magnitudes 6.2, absent,
  4.8 and 5.0. A decimal literal of the payload is parsed to the nearest double.
\<close>

definition quake :: "string \<Rightarrow> jsval \<Rightarrow> earthquake" where
  "quake i m =
     \<lparr>properties = \<lparr>mag = m, place = ''10km N of Somewhere'', time = 0, tsunami = 0\<rparr>,
      geometry = \<lparr>coordinates = (0, 0, 10)\<rparr>,
      ident = i\<rparr>"

definition scenario :: "earthquake list" where
  "scenario =
     [quake ''1'' (Num (round64 (62 / 10))), quake ''2'' Null,
      quake ''3'' (Num (round64 (48 / 10))), quake ''4'' (Num 5)]"

definition range_filter :: "rat \<Rightarrow> rat \<Rightarrow> filter_state" where
  "range_filter lo hi = \<lparr>timeframe = Day, minMagnitude = lo, filter_state.maxMagnitude = hi\<rparr>"

section \<open>The rule of the specification\<close>

definition event_collection :: "earthquake_response \<Rightarrow> earthquake list" where
  \<comment> \<open>the event collection of a response: its features, none where the field is missing\<close>
  "event_collection d = (case features d of None \<Rightarrow> [] | Some fs \<Rightarrow> fs)"

definition spec_included :: "rat \<Rightarrow> rat \<Rightarrow> earthquake \<Rightarrow> bool" where
  \<comment> \<open>section 4.2: the magnitude is present and \<open>lo \<le> magnitude \<le> hi\<close>\<close>
  "spec_included lo hi e = (case mag (properties e) of Num r \<Rightarrow> lo \<le> r \<and> r \<le> hi | _ \<Rightarrow> False)"

definition spec_significant :: "earthquake \<Rightarrow> bool" where
  \<comment> \<open>section 4.3: the magnitude is present and at least 5.0\<close>
  "spec_significant e = (case mag (properties e) of Num r \<Rightarrow> 5 \<le> r | _ \<Rightarrow> False)"

section \<open>The branches of the aggregation\<close>

datatype stats_branch = EmptySubset | NoMagnitudes | Aggregated

definition branch_taken :: "earthquake list \<Rightarrow> stats_branch" where
  \<comment> \<open>the \<^verbatim>\<open>return\<close> of \<open>stats\<close> that is reached, by the same two guards\<close>
  "branch_taken eqs =
     (if length eqs = 0 then EmptySubset
      else if length (magnitudes eqs) = 0 then NoMagnitudes
      else Aggregated)"

section \<open>The filter controls\<close>

definition initial_filters :: filter_state where
  "initial_filters = \<lparr>timeframe = Day, minMagnitude = 0, filter_state.maxMagnitude = 10\<rparr>"

text \<open>
  Modelled from the spec: the \<^verbatim>\<open>Slider\<close> component (components/ui/slider) is not among
  the sources. Section 6 of the specification gives the two magnitude controls the range
  \<open>[0, 10]\<close> and the step 0.1, which are the \<^verbatim>\<open>min\<close>, \<^verbatim>\<open>max\<close> and \<^verbatim>\<open>step\<close> the page
  passes to each of them. A slider hands a value of its range to \<^verbatim>\<open>onValueChange\<close>; the
  step only thins the values of the range out and is not modelled.
\<close>

definition slider_value :: "rat \<Rightarrow> rat \<Rightarrow> rat \<Rightarrow> bool" where
  \<comment> \<open>Modelled from the spec: the values a \<^verbatim>\<open>Slider\<close> with \<^verbatim>\<open>min={lo}\<close> and \<^verbatim>\<open>max={hi}\<close> emits\<close>
  "slider_value lo hi v \<longleftrightarrow> lo \<le> v \<and> v \<le> hi"

datatype action = SelectTimeframe timeframe | SlideMin rat | SlideMax rat

fun enabled :: "action \<Rightarrow> bool" where
  \<comment> \<open>what the controls, as the page configures them, can emit\<close>
  "enabled (SelectTimeframe tf) = True"
| "enabled (SlideMin v) = slider_value 0 10 v"
| "enabled (SlideMax v) = slider_value 0 10 v"

fun handle :: "filter_state \<Rightarrow> action \<Rightarrow> filter_state" where
  \<comment> \<open>the three handlers, each a \<^verbatim>\<open>setFilters\<close> of the spread state with one field replaced\<close>
  "handle filters (SelectTimeframe tf) = filters\<lparr>timeframe := tf\<rparr>"
| "handle filters (SlideMin v) = filters\<lparr>minMagnitude := v\<rparr>"
| "handle filters (SlideMax v) = filters\<lparr>filter_state.maxMagnitude := v\<rparr>"

definition spec_invariant :: "filter_state \<Rightarrow> bool" where
  \<comment> \<open>section 3: \<open>0 \<le> minMagnitude \<le> maxMagnitude \<le> 10\<close>\<close>
  "spec_invariant f \<longleftrightarrow>
     0 \<le> minMagnitude f \<and> minMagnitude f \<le> filter_state.maxMagnitude f
     \<and> filter_state.maxMagnitude f \<le> 10"

definition in_slider_range :: "filter_state \<Rightarrow> bool" where
  "in_slider_range f \<longleftrightarrow>
     0 \<le> minMagnitude f \<and> minMagnitude f \<le> 10
     \<and> 0 \<le> filter_state.maxMagnitude f \<and> filter_state.maxMagnitude f \<le> 10"

section \<open>The fetcher, the feed hook and the page\<close>

text \<open>
  What the network answers to one request of the endpoint: no response at all, or a
  response with a status and a body, which parses as a JSON document or does not.
\<close>

datatype http_body = NotJson | Json earthquake_response

datatype fetch_outcome = NetworkFailure | Response nat http_body

datatype fetch_error = FailedToFetch | SyntaxError

fun fetcher :: "fetch_outcome \<Rightarrow> fetch_error + earthquake_response" where
  \<comment> \<open>\<^verbatim>\<open>fetch(url).then((res) => res.json())\<close>: \<^verbatim>\<open>fetch\<close> rejects only without a response,
      \<^verbatim>\<open>res.json()\<close> only on a body that does not parse; the status is not read\<close>
  "fetcher NetworkFailure = Inl FailedToFetch"
| "fetcher (Response status NotJson) = Inl SyntaxError"
| "fetcher (Response status (Json d)) = Inr d"

record swr_response =
  data :: "earthquake_response option"
  error :: bool
  isLoading :: bool

text \<open>
  Modelled from the spec: \<^verbatim>\<open>useSWR\<close> belongs to the swr package, which is not among the
  sources. Sections 3, 4.1 and 4.4 of the specification: a successful fetch replaces the
  snapshot; a failed one produces the error signal and leaves the existing snapshot in
  place; the page starts loading, without a snapshot. A fetch has succeeded for the hook
  when the promise of the fetcher it was given resolves, and has failed when it rejects.
\<close>

definition first_load :: swr_response where
  \<comment> \<open>Modelled from the spec: the result of \<^verbatim>\<open>useSWR\<close> before the first response\<close>
  "first_load = \<lparr>data = None, error = False, isLoading = True\<rparr>"

definition fetch_succeeded :: "earthquake_response \<Rightarrow> swr_response \<Rightarrow> swr_response" where
  \<comment> \<open>Modelled from the spec: the result of \<^verbatim>\<open>useSWR\<close> after the fetcher resolved with \<open>r\<close>\<close>
  "fetch_succeeded r s = \<lparr>data = Some r, error = False, isLoading = False\<rparr>"

definition fetch_failed :: "swr_response \<Rightarrow> swr_response" where
  \<comment> \<open>Modelled from the spec: the result of \<^verbatim>\<open>useSWR\<close> after the fetcher rejected\<close>
  "fetch_failed s = s\<lparr>error := True, isLoading := False\<rparr>"

definition refresh :: "fetch_outcome \<Rightarrow> swr_response \<Rightarrow> swr_response" where
  \<comment> \<open>one fetch of the hook, through the fetcher of the page\<close>
  "refresh outcome s =
     (case fetcher outcome of Inl e \<Rightarrow> fetch_failed s | Inr d \<Rightarrow> fetch_succeeded d s)"

fun label :: "timeframe \<Rightarrow> string" where
  "label Hour = ''Past Hour''"
| "label Day = ''Past Day''"
| "label Week = ''Past Week''"
| "label Month = ''Past Month''"

text \<open>
  What the page renders below the filter controls, which are rendered in every state: the
  statistics section, the line "Showing n of m earthquakes" and the list section. The
  four statistics cards show the fields of \<open>stats\<close> and the label of the timeframe.

  The line "Showing n of m" is rendered whenever \<^verbatim>\<open>data\<close> is there and reads
  \<^verbatim>\<open>data.features.length\<close> with no test of \<^verbatim>\<open>features\<close>: on a document without the field the
  read of \<^verbatim>\<open>length\<close> throws, and the render with it.
\<close>

datatype js_error = TypeError

datatype statistics_section = StatsSkeleton | FailedToLoad | StatsCards statistics string

datatype list_section = ListSkeleton | NoEarthquakesFound | EarthquakeCards "earthquake list"

record page =
  statistics_section :: statistics_section
  showing :: "(nat \<times> nat) option"
  list_section :: list_section

definition QuakeTrakr :: "swr_response \<Rightarrow> filter_state \<Rightarrow> js_error + page" where
  "QuakeTrakr swr filters =
     (let shown = filteredEarthquakes (data swr) filters;
          cards =
            (if isLoading swr then StatsSkeleton
             else if error swr then FailedToLoad
             else StatsCards (stats shown) (label (timeframe filters)));
          rows =
            (if isLoading swr then ListSkeleton
             else if length shown = 0 then NoEarthquakesFound
             else EarthquakeCards shown)
      in case data swr of
           None \<Rightarrow> Inr \<lparr>statistics_section = cards, showing = None, list_section = rows\<rparr>
         | Some d \<Rightarrow>
             (case features d of
                None \<Rightarrow> Inl TypeError
              | Some fs \<Rightarrow>
                  Inr \<lparr>statistics_section = cards,
                       showing = Some (length shown, length fs),
                       list_section = rows\<rparr>))"

section \<open>More sample events\<close>

text \<open>
  The scenario as the page shows it with the initial bounds, and three events of
  magnitude 0.1.
\<close>

definition displayed :: "earthquake list" where
  "displayed = filteredEarthquakes (Some \<lparr>features = Some scenario\<rparr>) initial_filters"

definition good_snapshot :: swr_response where
  \<comment> \<open>the hook after the first fetch returned the scenario\<close>
  "good_snapshot = refresh (Response 200 (Json \<lparr>features = Some scenario\<rparr>)) first_load"

definition tenths :: "earthquake list" where
  "tenths =
     [quake ''a'' (Num (round64 (1 / 10))), quake ''b'' (Num (round64 (1 / 10))),
      quake ''c'' (Num (round64 (1 / 10)))]"

section \<open>Basic facts\<close>

lemma kept_iff:
  "(v \<noteq> Null \<and> v \<noteq> Undefined \<and> js_ge v lo \<and> js_le v hi)
   = (case v of Num r \<Rightarrow> lo \<le> r \<and> r \<le> hi | _ \<Rightarrow> False)"
  by (cases v) (simp_all add: js_ge_def js_le_def)

lemma filteredEarthquakes_Some:
  "filteredEarthquakes (Some d) f
   = filter (spec_included (minMagnitude f) (filter_state.maxMagnitude f)) (event_collection d)"
  by (cases "features d")
    (simp_all add: filteredEarthquakes_def event_collection_def spec_included_def [abs_def] kept_iff)

lemma event_collection_simps [simp]:
  "event_collection \<lparr>features = Some es\<rparr> = es"
  "event_collection \<lparr>features = None\<rparr> = []"
  "event_collection (d\<lparr>features := Some es\<rparr>) = es"
  "event_collection (d\<lparr>features := None\<rparr>) = []"
  by (simp_all add: event_collection_def)

lemma filteredEarthquakes_None: "filteredEarthquakes None f = []"
  by (simp add: filteredEarthquakes_def)

lemma spec_included_Num:
  "spec_included lo hi e \<longleftrightarrow> (\<exists>r. mag (properties e) = Num r \<and> lo \<le> r \<and> r \<le> hi)"
  by (cases "mag (properties e)") (simp_all add: spec_included_def)

lemma filtered_present:
  "\<forall>e \<in> set (filteredEarthquakes snap f). \<exists>r. mag (properties e) = Num r"
  by (cases snap) (auto simp: filteredEarthquakes_Some filteredEarthquakes_None spec_included_Num)

lemma significant_iff:
  "(v \<noteq> Null \<and> js_ge v 5) = (case v of Num r \<Rightarrow> 5 \<le> r | _ \<Rightarrow> False)"
  by (cases v) (simp_all add: js_ge_def)

lemma magnitudes_Nil [simp]: "magnitudes [] = []"
  by (simp add: magnitudes_def List.map_filter_simps)

lemma magnitudes_Cons:
  "magnitudes (e # es)
   = (case mag (properties e) of Num r \<Rightarrow> r # magnitudes es | _ \<Rightarrow> magnitudes es)"
  by (cases "mag (properties e)") (simp_all add: magnitudes_def List.map_filter_simps)

lemma magnitudes_eq_Nil_iff:
  "magnitudes es = [] \<longleftrightarrow> (\<forall>e \<in> set es. \<forall>r. mag (properties e) \<noteq> Num r)"
  by (induction es) (auto simp: magnitudes_Cons split: jsval.splits)

lemma magnitudes_all_present:
  "\<forall>e \<in> set es. \<exists>r. mag (properties e) = Num r \<Longrightarrow> length (magnitudes es) = length es"
  by (induction es) (auto simp: magnitudes_Cons split: jsval.splits)

lemma scenario_mags:
  "round64 (31 / 5) = 6980579422424269 / 1125899906842624"
  "round64 (24 / 5) = 5404319552844595 / 1125899906842624"
  by code_simp+

section \<open>Rounding error\<close>

lemma rne_error: "\<bar>of_int (rne y) - y\<bar> \<le> 1 / 2"
proof -
  have "of_int \<lfloor>y\<rfloor> \<le> y" "y < of_int \<lfloor>y\<rfloor> + 1" by linarith+
  then show ?thesis
    by (auto simp: rne_def Let_def)
qed

lemma bitlen_powi:
  assumes "0 < a"
  shows "(2::rat) powi (bitlen a - 1) \<le> of_int a" "of_int a < (2::rat) powi bitlen a"
proof -
  from assms have pos: "1 \<le> bitlen a" by (auto simp: bitlen_alt_def)
  from bitlen_bounds [OF assms]
  have "2 ^ nat (bitlen a - 1) \<le> a" "a < 2 ^ nat (bitlen a)" by simp_all
  then have "(of_int (2 ^ nat (bitlen a - 1))::rat) \<le> of_int a" "(of_int a::rat) < of_int (2 ^ nat (bitlen a))"
    by (simp_all only: of_int_le_iff of_int_less_iff)
  with pos show "(2::rat) powi (bitlen a - 1) \<le> of_int a" "of_int a < (2::rat) powi bitlen a"
    by (simp_all add: power_int_def)
qed

lemma ilog2_bounds:
  assumes "x \<noteq> 0"
  shows "2 powi ilog2 x \<le> \<bar>x\<bar>" "\<bar>x\<bar> < 2 powi (ilog2 x + 1)"
proof -
  obtain a b where q: "quotient_of \<bar>x\<bar> = (a, b)" by (cases "quotient_of \<bar>x\<bar>")
  then have b: "0 < b" and x: "\<bar>x\<bar> = of_int a / of_int b"
    by (simp_all add: quotient_of_denom_pos quotient_of_div)
  from assms have "0 < \<bar>x\<bar>" by simp
  with x b have a: "0 < a" by (simp add: zero_less_divide_iff)
  let ?d = "bitlen a - bitlen b"
  have up: "\<bar>x\<bar> < 2 powi (?d + 1)"
  proof -
    have "of_int a < (2::rat) powi bitlen a" using a by (rule bitlen_powi)
    moreover have "(2::rat) powi (bitlen b - 1) \<le> of_int b" using b by (rule bitlen_powi)
    ultimately have "of_int a * (2::rat) powi (bitlen b - 1) < 2 powi bitlen a * of_int b"
      using a by (intro mult_less_le_imp_less) simp_all
    then have "of_int a / of_int b < (2::rat) powi bitlen a / 2 powi (bitlen b - 1)"
      using b by (simp add: field_simps)
    also have "\<dots> = 2 powi (?d + 1)"
      by (simp add: power_int_diff [symmetric] algebra_simps)
    finally show ?thesis by (simp add: x)
  qed
  have low: "2 powi (?d - 1) \<le> \<bar>x\<bar>"
  proof -
    have "(2::rat) powi (bitlen a - 1) \<le> of_int a" using a by (rule bitlen_powi)
    moreover have "of_int b < (2::rat) powi bitlen b" using b by (rule bitlen_powi)
    ultimately have "(2::rat) powi (bitlen a - 1) * of_int b \<le> of_int a * 2 powi bitlen b"
      using a b by (intro mult_mono) (simp_all)
    then have "(2::rat) powi (bitlen a - 1) / 2 powi bitlen b \<le> of_int a / of_int b"
      using b by (simp add: field_simps)
    moreover have "(2::rat) powi (bitlen a - 1) / 2 powi bitlen b = 2 powi (?d - 1)"
      by (simp add: power_int_diff [symmetric] algebra_simps)
    ultimately show ?thesis by (simp add: x)
  qed
  show "2 powi ilog2 x \<le> \<bar>x\<bar>" 
    using low by (simp add: ilog2_def q Let_def)
  show "\<bar>x\<bar> < 2 powi (ilog2 x + 1)"
    using up by (auto simp add: ilog2_def q Let_def not_le)
qed

lemma round64_error: "\<bar>round64 x - x\<bar> \<le> u64 * (\<bar>x\<bar> + tiny64)"
proof (cases "x = 0")
  case True
  then show ?thesis by (simp add: round64_def u64_def tiny64_def)
next
  case False
  define e where "e = max (ilog2 x) (- 1022)"
  define q :: rat where "q = 2 powi (e - 52)"
  have q: "0 < q" by (simp add: q_def)
  have r: "round64 x = of_int (rne (x / q)) * q"
    using False by (simp add: round64_def e_def q_def Let_def)
  have "round64 x - x = (of_int (rne (x / q)) - x / q) * q"
    using q by (simp add: r field_simps)
  then have "\<bar>round64 x - x\<bar> = \<bar>of_int (rne (x / q)) - x / q\<bar> * q"
    using q by (simp add: abs_mult)
  also have "\<dots> \<le> 1 / 2 * q"
    using q rne_error [of "x / q"] by (intro mult_right_mono) simp_all
  also have "1 / 2 * q = 2 powi e * u64"
    by (simp add: q_def u64_def power_int_diff)
  also have "\<dots> \<le> u64 * (\<bar>x\<bar> + tiny64)"
  proof (cases "- 1022 \<le> ilog2 x")
    case True
    then have "e = ilog2 x" by (simp add: e_def)
    with ilog2_bounds(1) [OF False] have "2 powi e \<le> \<bar>x\<bar> + tiny64"
      by (simp add: tiny64_def add_increasing2)
    then show ?thesis
      by (simp add: u64_def mult.commute divide_right_mono)
  next
    case False
    then have "e = - 1022" by (simp add: e_def)
    then have "2 powi e = tiny64" by (simp add: tiny64_def power_int_minus_divide)
    then show ?thesis
      by (simp add: u64_def mult.commute divide_right_mono)
  qed
  finally show ?thesis .
qed

lemma u64_pos: "0 < u64"
  by (simp add: u64_def)

lemma tiny64_pos: "0 < tiny64"
  by (simp add: tiny64_def)

lemma growth_ge_1: "1 \<le> (1 + u64) ^ k"
  using u64_pos by (simp add: one_le_power)

lemma to_double_Fin: "to_double x = Fin r \<Longrightarrow> r = round64 x"
  by (simp add: to_double_def Let_def split: if_splits)

lemma to_double_finite: "\<bar>round64 x\<bar> < 2 ^ 1024 \<Longrightarrow> to_double x = Fin (round64 x)"
  by (simp add: to_double_def Let_def)

lemma fadd_Fin: "fadd d x = Fin r \<Longrightarrow> \<exists>s. d = Fin s \<and> r = round64 (s + x)"
  by (cases d) (simp_all add: to_double_Fin)

lemma fdiv_Fin: "fdiv d n = Fin r \<Longrightarrow> \<exists>s. d = Fin s \<and> r = round64 (s / of_nat n)"
  by (cases d) (simp_all add: to_double_Fin split: if_splits)

lemma abs_sum_list_le:
  "\<forall>m \<in> set xs. \<bar>m\<bar> \<le> M \<Longrightarrow> \<bar>sum_list xs\<bar> \<le> of_nat (length xs) * (M::rat)"
proof (induction xs)
  case Nil
  then show ?case by simp
next
  case (Cons x xs)
  then have "\<bar>x\<bar> \<le> M" "\<bar>sum_list xs\<bar> \<le> of_nat (length xs) * M" by simp_all
  then show ?case by (simp add: algebra_simps)
qed

text \<open>One rounded addition: the error of the sum so far grows by the factor 1 + u64.\<close>

lemma round_add_error:
  assumes e: "\<bar>s - S\<bar> \<le> (G - 1) * C" and S: "\<bar>S\<bar> + tiny64 \<le> C" and x: "\<bar>x\<bar> \<le> M"
    and G: "1 \<le> G"
  shows "\<bar>round64 (s + x) - (S + x)\<bar> \<le> ((1 + u64) * G - 1) * (C + M)"
proof -
  from x have M: "0 \<le> M" by linarith
  have "\<bar>s + x\<bar> \<le> \<bar>S\<bar> + \<bar>x\<bar> + \<bar>s - S\<bar>" by linarith
  with S x have sx: "\<bar>s + x\<bar> + tiny64 \<le> C + M + \<bar>s - S\<bar>" by simp
  have "\<bar>round64 (s + x) - (s + x)\<bar> \<le> u64 * (\<bar>s + x\<bar> + tiny64)"
    by (rule round64_error)
  also have "\<dots> \<le> u64 * (C + M + \<bar>s - S\<bar>)"
    using sx u64_pos by (simp add: mult_left_mono)
  finally have "\<bar>round64 (s + x) - (S + x)\<bar> \<le> u64 * (C + M) + (1 + u64) * \<bar>s - S\<bar>"
    by (simp add: algebra_simps)
  also have "\<dots> \<le> u64 * (C + M) + (1 + u64) * ((G - 1) * C)"
    using e u64_pos by (simp add: mult_left_mono)
  also have "\<dots> \<le> u64 * (C + M) + (1 + u64) * ((G - 1) * (C + M))"
  proof -
    have "0 \<le> (1 + u64) * (G - 1)" using G u64_pos by simp
    then have "(1 + u64) * (G - 1) * C \<le> (1 + u64) * (G - 1) * (C + M)"
      using M by (intro mult_left_mono) simp_all
    then show ?thesis by (simp add: mult.assoc)
  qed
  also have "\<dots> = ((1 + u64) * G - 1) * (C + M)"
    by (simp add: algebra_simps)
  finally show ?thesis .
qed

lemma fsum_error:
  assumes "foldl fadd (Fin 0) xs = Fin s" and "\<forall>m \<in> set xs. \<bar>m\<bar> \<le> M"
  shows "\<bar>s - sum_list xs\<bar>
         \<le> ((1 + u64) ^ length xs - 1) * (of_nat (length xs) * M + tiny64)"
  using assms
proof (induction xs arbitrary: s rule: rev_induct)
  case Nil
  then show ?case by simp
next
  case (snoc x xs)
  from snoc.prems(1) have "fadd (foldl fadd (Fin 0) xs) x = Fin s" by simp
  then obtain s' where s': "foldl fadd (Fin 0) xs = Fin s'" and s: "s = round64 (s' + x)"
    by (auto dest: fadd_Fin)
  from snoc.prems(2) have x: "\<bar>x\<bar> \<le> M" and xs: "\<forall>m \<in> set xs. \<bar>m\<bar> \<le> M" by simp_all
  have "\<bar>round64 (s' + x) - (sum_list xs + x)\<bar>
        \<le> ((1 + u64) * (1 + u64) ^ length xs - 1) * (of_nat (length xs) * M + tiny64 + M)"
    using snoc.IH [OF s' xs] _ x growth_ge_1
    by (rule round_add_error) (simp add: abs_sum_list_le [OF xs])
  then show ?case
    by (simp add: s algebra_simps)
qed

lemma fsum_finite:
  assumes "\<forall>m \<in> set xs. \<bar>m\<bar> \<le> M"
    and "(1 + u64) ^ length xs * (of_nat (length xs) * M + tiny64) < 2 ^ 1024"
  shows "\<exists>s. foldl fadd (Fin 0) xs = Fin s"
  using assms
proof (induction xs rule: rev_induct)
  case Nil
  then show ?case by simp
next
  case (snoc x xs)
  define G where "G = (1 + u64) ^ length xs"
  define C where "C = of_nat (length xs) * M + tiny64"
  from snoc.prems(1) have x: "\<bar>x\<bar> \<le> M" and xs: "\<forall>m \<in> set xs. \<bar>m\<bar> \<le> M" by simp_all
  then have M: "0 \<le> M" by linarith
  have G: "1 \<le> G" unfolding G_def by (rule growth_ge_1)
  have C: "0 \<le> C" using M tiny64_pos by (simp add: C_def)
  from snoc.prems(2) have big: "(1 + u64) * G * (C + M) < 2 ^ 1024"
    by (simp add: G_def C_def algebra_simps)
  have "G * C \<le> ((1 + u64) * G) * (C + M)"
    using G C M u64_pos by (intro mult_mono) simp_all
  with big have "G * C < 2 ^ 1024" by linarith
  with snoc.IH [OF xs] obtain s where s: "foldl fadd (Fin 0) xs = Fin s"
    by (auto simp: G_def C_def)
  have S: "\<bar>sum_list xs\<bar> + tiny64 \<le> C"
    using abs_sum_list_le [OF xs] by (simp add: C_def)
  have "\<bar>s - sum_list xs\<bar> \<le> (G - 1) * C"
    unfolding G_def C_def using s xs by (rule fsum_error)
  then have "\<bar>round64 (s + x) - (sum_list xs + x)\<bar> \<le> ((1 + u64) * G - 1) * (C + M)"
    using S x G by (rule round_add_error)
  moreover have "\<bar>sum_list xs + x\<bar> \<le> C + M"
    using S x tiny64_pos by linarith
  ultimately have "\<bar>round64 (s + x)\<bar> \<le> (C + M) + ((1 + u64) * G - 1) * (C + M)"
    by linarith
  also have "\<dots> = (1 + u64) * G * (C + M)" by (simp add: algebra_simps)
  finally have "\<bar>round64 (s + x)\<bar> < 2 ^ 1024" using big by linarith
  then show ?case
    by (simp add: s to_double_finite)
qed

lemma round_div_error:
  assumes "xs \<noteq> []" and "\<forall>m \<in> set xs. \<bar>m\<bar> \<le> M" and "foldl fadd (Fin 0) xs = Fin s"
  shows "\<bar>round64 (s / of_nat (length xs)) - sum_list xs / of_nat (length xs)\<bar>
         \<le> rounding_tolerance (length xs) M"
proof -
  define S where "S = sum_list xs"
  define N :: rat where "N = of_nat (length xs)"
  define G where "G = (1 + u64) ^ length xs"
  define C where "C = M + tiny64"
  from assms(1) have N: "1 \<le> N" by (cases xs) (simp_all add: N_def)
  from assms obtain x where "\<bar>x\<bar> \<le> M" by (cases xs) auto
  then have M: "0 \<le> M" by linarith
  have G: "1 \<le> G" unfolding G_def by (rule growth_ge_1)
  have C: "0 \<le> C" using M tiny64_pos by (simp add: C_def)
  have "N * M + tiny64 \<le> N * C"
  proof -
    have "tiny64 \<le> N * tiny64" using N tiny64_pos by simp
    then show ?thesis by (simp add: C_def algebra_simps)
  qed
  then have "(G - 1) * (N * M + tiny64) \<le> (G - 1) * (N * C)"
    using G by (intro mult_left_mono) simp_all
  with fsum_error [OF assms(3) assms(2)] have "\<bar>s - S\<bar> \<le> (G - 1) * C * N"
    by (simp add: S_def N_def G_def mult.assoc mult.commute [of C])
  then have e: "\<bar>s / N - S / N\<bar> \<le> (G - 1) * C"
    using N by (simp add: diff_divide_distrib [symmetric] pos_divide_le_eq)
  have "\<bar>S\<bar> \<le> N * M"
    unfolding S_def N_def using assms(2) by (rule abs_sum_list_le)
  then have S: "\<bar>S / N\<bar> \<le> M"
    using N by (simp add: pos_divide_le_eq mult.commute)
  have "\<bar>s / N\<bar> \<le> \<bar>S / N\<bar> + \<bar>s / N - S / N\<bar>" by linarith
  with S e have sN: "\<bar>s / N\<bar> + tiny64 \<le> C + (G - 1) * C" by (simp add: C_def)
  have "\<bar>round64 (s / N) - s / N\<bar> \<le> u64 * (\<bar>s / N\<bar> + tiny64)"
    by (rule round64_error)
  also have "\<dots> \<le> u64 * (C + (G - 1) * C)"
    using sN u64_pos by (simp add: mult_left_mono)
  finally have "\<bar>round64 (s / N) - S / N\<bar> \<le> u64 * (C + (G - 1) * C) + (G - 1) * C"
    using e by linarith
  also have "\<dots> = ((1 + u64) * G - 1) * C"
    by (simp add: algebra_simps)
  finally show ?thesis
    by (simp add: S_def N_def G_def C_def rounding_tolerance_def)
qed

lemma favg_error:
  assumes "xs \<noteq> []" and "\<forall>m \<in> set xs. \<bar>m\<bar> \<le> M"
    and "fdiv (foldl fadd (Fin 0) xs) (length xs) = Fin a"
  shows "\<bar>a - sum_list xs / of_nat (length xs)\<bar> \<le> rounding_tolerance (length xs) M"
proof -
  from assms(3) obtain s where "foldl fadd (Fin 0) xs = Fin s" "a = round64 (s / of_nat (length xs))"
    by (auto dest: fdiv_Fin)
  with round_div_error [OF assms(1,2)] show ?thesis by simp
qed

lemma favg_finite:
  assumes "xs \<noteq> []" and "\<forall>m \<in> set xs. \<bar>m\<bar> \<le> M"
    and "(1 + u64) ^ (length xs + 1) * (of_nat (length xs) * M + tiny64) < 2 ^ 1024"
  shows "\<exists>a. fdiv (foldl fadd (Fin 0) xs) (length xs) = Fin a"
proof -
  define N :: rat where "N = of_nat (length xs)"
  define G where "G = (1 + u64) ^ length xs"
  from assms(1) have N: "1 \<le> N" by (cases xs) (simp_all add: N_def)
  from assms obtain x where "\<bar>x\<bar> \<le> M" by (cases xs) auto
  then have M: "0 \<le> M" by linarith
  have G: "1 \<le> G" unfolding G_def by (rule growth_ge_1)
  have NM: "M + tiny64 \<le> N * M + tiny64"
    using N M by (simp add: mult_le_cancel_right1)
  from assms(3) have big: "(1 + u64) * G * (N * M + tiny64) < 2 ^ 1024"
    by (simp add: G_def N_def)
  have "G * (N * M + tiny64) \<le> (1 + u64) * G * (N * M + tiny64)"
    using G M N u64_pos tiny64_pos by (intro mult_right_mono) simp_all
  with big have "(1 + u64) ^ length xs * (of_nat (length xs) * M + tiny64) < 2 ^ 1024"
    by (simp add: G_def N_def)
  with fsum_finite [OF assms(2)] obtain s where s: "foldl fadd (Fin 0) xs = Fin s"
    by auto
  have "\<bar>round64 (s / N) - sum_list xs / N\<bar> \<le> ((1 + u64) * G - 1) * (M + tiny64)"
    using round_div_error [OF assms(1,2) s] by (simp add: rounding_tolerance_def N_def G_def)
  moreover have "\<bar>sum_list xs / N\<bar> \<le> M"
  proof -
    have "\<bar>sum_list xs\<bar> \<le> N * M"
      unfolding N_def using assms(2) by (rule abs_sum_list_le)
    then show ?thesis
      using N by (simp add: pos_divide_le_eq mult.commute)
  qed
  ultimately have "\<bar>round64 (s / N)\<bar> \<le> (M + tiny64) + ((1 + u64) * G - 1) * (M + tiny64)"
    using tiny64_pos by linarith
  also have "\<dots> = (1 + u64) * G * (M + tiny64)" by (simp add: algebra_simps)
  also have "\<dots> \<le> (1 + u64) * G * (N * M + tiny64)"
    using NM G u64_pos by (intro mult_left_mono) simp_all
  finally have "\<bar>round64 (s / N)\<bar> < 2 ^ 1024" using big by linarith
  moreover have "length xs \<noteq> 0" using assms(1) by simp
  ultimately show ?thesis
    by (simp add: s N_def to_double_finite)
qed

lemma growth_bound: "(1 + u64) ^ n * (1 - of_nat n * u64) \<le> 1"
proof (induction n)
  case 0
  then show ?case by simp
next
  case (Suc n)
  have "0 \<le> u64 * u64 * (1 + of_nat n)"
    using u64_pos by simp
  then have "(1 + u64) * (1 - of_nat (Suc n) * u64) \<le> 1 - of_nat n * u64"
    by (simp add: algebra_simps)
  then have "(1 + u64) ^ n * ((1 + u64) * (1 - of_nat (Suc n) * u64)) \<le> (1 + u64) ^ n * (1 - of_nat n * u64)"
    using u64_pos by (intro mult_left_mono) simp_all
  with Suc.IH have "(1 + u64) ^ n * ((1 + u64) * (1 - of_nat (Suc n) * u64)) \<le> 1"
    by linarith
  then show ?case by (simp only: power_Suc mult.assoc mult.left_commute [of "1 + u64"])
qed

lemma growth_le_2:
  assumes "n \<le> 2 ^ 52"
  shows "(1 + u64) ^ n \<le> 2"
proof -
  from assms have "(of_nat n :: rat) \<le> of_nat (2 ^ 52)" by (simp only: of_nat_le_iff)
  then have "of_nat n * u64 \<le> 1 / 2" by (simp add: u64_def)
  then have "(1 + u64) ^ n * (1 / 2) \<le> (1 + u64) ^ n * (1 - of_nat n * u64)"
    using u64_pos by (intro mult_left_mono) simp_all
  with growth_bound [of n] show ?thesis by simp
qed

lemma sum_list_bounds:
  "\<forall>m \<in> set xs. lo \<le> m \<and> m \<le> hi \<Longrightarrow>
   of_nat (length xs) * lo \<le> sum_list xs \<and> sum_list xs \<le> of_nat (length xs) * (hi::rat)"
  by (induction xs) (auto simp: algebra_simps)

lemma mean_bounds:
  assumes "xs \<noteq> []" and "\<forall>m \<in> set xs. lo \<le> m \<and> m \<le> (hi::rat)"
  shows "lo \<le> sum_list xs / of_nat (length xs)" "sum_list xs / of_nat (length xs) \<le> hi"
proof -
  from assms(1) have "0 < (of_nat (length xs)::rat)" by simp
  with sum_list_bounds [OF assms(2)]
  show "lo \<le> sum_list xs / of_nat (length xs)" "sum_list xs / of_nat (length xs) \<le> hi"
    by (simp_all add: pos_le_divide_eq pos_divide_le_eq mult.commute)
qed

lemma Math_max_eq_Max: "ms \<noteq> [] \<Longrightarrow> Math_max ms = Max (set ms)"
proof (induction ms rule: Math_max.induct)
  case (1 m)
  then show ?case by simp
next
  case (2 m v va)
  then show ?case by (simp add: max.commute)
next
  case 3
  then show ?case by simp
qed

lemma finite64_iff: "\<bar>r\<bar> < 2 ^ 1024 \<longleftrightarrow> r = 0 \<or> ilog2 r < 1024"
proof (cases "r = 0")
  case True
  then show ?thesis by simp
next
  case False
  show ?thesis
  proof (cases "ilog2 r < 1024")
    case True
    then have "(2::rat) powi (ilog2 r + 1) \<le> 2 powi 1024"
      by (intro power_int_increasing) simp_all
    with ilog2_bounds(2) [OF False] True show ?thesis by simp
  next
    case no: False
    then have "(2::rat) powi 1024 \<le> 2 powi ilog2 r"
      by (intro power_int_increasing) simp_all
    with ilog2_bounds(1) [OF False] no False show ?thesis by simp
  qed
qed

lemma to_double_code [code]:
  "to_double x = (let r = round64 x in if r = 0 \<or> ilog2 r < 1024 then Fin r else NonFinite)"
  by (simp only: to_double_def finite64_iff)

lemma abs_le_max_abs: "lo \<le> m \<Longrightarrow> m \<le> hi \<Longrightarrow> \<bar>m\<bar> \<le> max \<bar>lo\<bar> \<bar>hi::rat\<bar>"
  by linarith

section \<open>The scenarios of the specification\<close>

text \<open>
  Section 8 of the specification, with the bounds 0 and 10: events 1, 3 and 4 pass, and
  the statistics are total 3, average 5.333333333333333 (the double nearest to the
  quotient of the rounded sum), maximum 6.2 and two significant events. With the bounds
  5 and 10, events 1 and 4 pass and the average is the double 5.6.
\<close>

lemma displayed_eq:
  "displayed
   = [quake ''1'' (Num (6980579422424269 / 1125899906842624)),
      quake ''3'' (Num (5404319552844595 / 1125899906842624)), quake ''4'' (Num 5)]"
  by code_simp

lemma displayed_magnitudes:
  "magnitudes displayed
   = [6980579422424269 / 1125899906842624, 5404319552844595 / 1125899906842624, 5]"
  by code_simp

lemma displayed_stats:
  "stats displayed
   = \<lparr>total = 3, avgMagnitude = Fin (6004799503160661 / 1125899906842624),
      statistics.maxMagnitude = 6980579422424269 / 1125899906842624, significant = 2\<rparr>"
  by code_simp

lemma scenario_from_5:
  "stats (filteredEarthquakes (Some \<lparr>features = Some scenario\<rparr>) (range_filter 5 10))
   = \<lparr>total = 2, avgMagnitude = Fin (3152519739159347 / 562949953421312),
      statistics.maxMagnitude = 6980579422424269 / 1125899906842624, significant = 2\<rparr>"
  by code_simp

lemma tenth_double: "round64 (1 / 10) = 3602879701896397 / 36028797018963968"
  by code_simp

lemma tenths_magnitudes:
  "magnitudes tenths
   = [3602879701896397 / 36028797018963968, 3602879701896397 / 36028797018963968,
      3602879701896397 / 36028797018963968]"
  by code_simp

lemma tenths_stats:
  "stats tenths
   = \<lparr>total = 3, avgMagnitude = Fin (7205759403792795 / 72057594037927936),
      statistics.maxMagnitude = 3602879701896397 / 36028797018963968, significant = 0\<rparr>"
  by code_simp

section \<open>The filter\<close>

text \<open>
  C1. For every event collection and every pair of bounds, the filter keeps exactly the
  events whose magnitude is present (neither null nor undefined) and lies between the
  bounds, both included. An event with an absent magnitude is dropped whatever the
  range, and with equal bounds only a magnitude equal to that value passes. The event
  collection of a response is its features array, and is empty for a document that has
  none.
\<close>

theorem filter_rule:
  "filteredEarthquakes (Some d) f
     = filter (spec_included (minMagnitude f) (filter_state.maxMagnitude f)) (event_collection d)
   \<and> (e \<in> set (filteredEarthquakes (Some d) f) \<longleftrightarrow>
        e \<in> set (event_collection d)
        \<and> (\<exists>r. mag (properties e) = Num r \<and> minMagnitude f \<le> r \<and> r \<le> filter_state.maxMagnitude f))
   \<and> (mag (properties e) = Null \<or> mag (properties e) = Undefined
        \<longrightarrow> e \<notin> set (filteredEarthquakes (Some d) f))
   \<and> (minMagnitude f = filter_state.maxMagnitude f \<longrightarrow>
        (e \<in> set (filteredEarthquakes (Some d) f) \<longleftrightarrow>
           e \<in> set (event_collection d) \<and> mag (properties e) = Num (minMagnitude f)))"
  by (auto simp: filteredEarthquakes_Some spec_included_Num)

theorem filter_rule_witness:
  "filteredEarthquakes (Some \<lparr>features = Some scenario\<rparr>) (range_filter 5 5) = [quake ''4'' (Num 5)]
   \<and> quake ''2'' Null \<notin> set (filteredEarthquakes (Some \<lparr>features = Some scenario\<rparr>) (range_filter 5 5))
   \<and> quake ''4'' (Num 5) \<in> set (filteredEarthquakes (Some \<lparr>features = Some scenario\<rparr>) (range_filter 5 5))"
  using filter_rule [of "\<lparr>features = Some scenario\<rparr>" "range_filter 5 5" "quake ''4'' (Num 5)"]
    filter_rule [of "\<lparr>features = Some scenario\<rparr>" "range_filter 5 5" "quake ''2'' Null"]
  by (simp add: scenario_def range_filter_def quake_def spec_included_def scenario_mags)

text \<open>
  C5. The output of the filter is a subsequence of the input: it is no longer than the
  input, each of its elements occurs in the input, and the elements keep their relative
  order. The empty collection, a response without a collection and the absence of a
  response give the empty output.
\<close>

theorem filter_subsequence:
  "length (filteredEarthquakes (Some d) f) \<le> length (event_collection d)
   \<and> set (filteredEarthquakes (Some d) f) \<subseteq> set (event_collection d)
   \<and> subseq (filteredEarthquakes (Some d) f) (event_collection d)
   \<and> filteredEarthquakes (Some (d\<lparr>features := Some []\<rparr>)) f = []
   \<and> filteredEarthquakes (Some (d\<lparr>features := None\<rparr>)) f = []
   \<and> filteredEarthquakes None f = []"
  by (simp add: filteredEarthquakes_Some filteredEarthquakes_None)

theorem filter_subsequence_witness:
  "filteredEarthquakes (Some \<lparr>features = Some scenario\<rparr>) (range_filter 0 10)
     = [quake ''1'' (Num (round64 (62 / 10))), quake ''3'' (Num (round64 (48 / 10))), quake ''4'' (Num 5)]
   \<and> subseq (filteredEarthquakes (Some \<lparr>features = Some scenario\<rparr>) (range_filter 0 10)) scenario"
  using filter_subsequence [of "\<lparr>features = Some scenario\<rparr>" "range_filter 0 10"]
  by (simp add: filteredEarthquakes_Some scenario_def range_filter_def quake_def
      spec_included_def scenario_mags)

text \<open>
  C6. The filter is idempotent: filtering its own output again with the same bounds
  returns that output.
\<close>

theorem filter_idempotent:
  "filteredEarthquakes (Some (d\<lparr>features := Some (filteredEarthquakes (Some d) f)\<rparr>)) f
   = filteredEarthquakes (Some d) f"
  by (simp add: filteredEarthquakes_Some)

section \<open>The aggregate of the empty subset\<close>

text \<open>
  C2. The statistics of the empty subset are zero in every field: total, average
  magnitude, maximum magnitude and significant count. The first branch returns before
  any division.
\<close>

theorem stats_empty:
  "stats [] = \<lparr>total = 0, avgMagnitude = Fin 0, statistics.maxMagnitude = 0, significant = 0\<rparr>"
  by (simp add: stats_def)

section \<open>Significant events\<close>

text \<open>
  C3. For every subset, the significant count of the statistics is the number of events
  of the subset whose magnitude is present and at least 5.0, and it is at most the
  total, which is the number of events of the subset.
\<close>

theorem significant_count:
  "significant (stats eqs)
     = length (filter (\<lambda>e. \<exists>r. mag (properties e) = Num r \<and> 5 \<le> r) eqs)
   \<and> significant (stats eqs) \<le> total (stats eqs)
   \<and> total (stats eqs) = length eqs"
proof -
  have count: "(\<lambda>e. \<exists>r. mag (properties e) = Num r \<and> 5 \<le> r) = spec_significant"
    by (rule ext) (simp add: spec_significant_def split: jsval.splits)
  show ?thesis
  proof (cases "magnitudes eqs = []")
    case True
    then have "filter spec_significant eqs = []"
      by (auto simp: magnitudes_eq_Nil_iff filter_empty_conv spec_significant_def split: jsval.splits)
    with True show ?thesis
      by (simp add: stats_def Let_def count)
  next
    case False
    then have "eqs \<noteq> []" by auto
    with False show ?thesis
      by (simp add: stats_def Let_def count significant_iff spec_significant_def [abs_def])
  qed
qed

theorem significant_count_witness:
  "significant (stats scenario) = 2 \<and> total (stats scenario) = 4
   \<and> length (filter (\<lambda>e. \<exists>r. mag (properties e) = Num r \<and> 5 \<le> r) scenario) = 2"
  using significant_count [of scenario]
  by (simp add: scenario_def quake_def scenario_mags stats_def magnitudes_Cons js_ge_def)

section \<open>The average magnitude\<close>

text \<open>
  C4, as the specification states it: for a non-empty subset all of whose events have a
  magnitude, the average magnitude lies between the least and the greatest of the
  magnitudes. It does not in binary64: the sum of three magnitudes 0.1 is rounded up to
  0.30000000000000004, and its third is 0.10000000000000002, above the magnitude of
  every event.
\<close>

theorem average_counterexample:
  "magnitudes tenths
     = [3602879701896397 / 36028797018963968, 3602879701896397 / 36028797018963968,
        3602879701896397 / 36028797018963968]
   \<and> stats tenths
       = \<lparr>total = 3, avgMagnitude = Fin (7205759403792795 / 72057594037927936),
          statistics.maxMagnitude = 3602879701896397 / 36028797018963968, significant = 0\<rparr>
   \<and> Max (set (magnitudes tenths)) < 7205759403792795 / 72057594037927936"
  by (simp add: tenths_magnitudes tenths_stats)

text \<open>
  C4, amended. For a non-empty subset all of whose events have a magnitude, the exact
  mean of the magnitudes lies between the least and the greatest of them. The average
  magnitude that is computed, when it is finite, differs from the exact mean by at most
  \<open>((1 + 2^-53)^(n+1) - 1) * (M + 2^-1022)\<close>, where \<open>n\<close> is the size of the subset and \<open>M\<close>
  the largest absolute value of a magnitude, and so lies between the least magnitude
  minus that tolerance and the greatest plus it. It is finite when \<open>n < 2^52\<close> and
  \<open>n * M \<le> 2^1022\<close>. The maximum magnitude of the statistics is the greatest of the
  magnitudes.
\<close>

theorem average_within_rounding:
  assumes "eqs \<noteq> []" and "\<forall>e \<in> set eqs. \<exists>r. mag (properties e) = Num r"
  shows
    "Min (set (magnitudes eqs)) \<le> sum_list (magnitudes eqs) / of_nat (length eqs)
     \<and> sum_list (magnitudes eqs) / of_nat (length eqs) \<le> Max (set (magnitudes eqs))
     \<and> (\<forall>a. avgMagnitude (stats eqs) = Fin a \<longrightarrow>
          \<bar>a - sum_list (magnitudes eqs) / of_nat (length eqs)\<bar>
            \<le> rounding_tolerance (length eqs) (magnitude_bound (magnitudes eqs))
          \<and> Min (set (magnitudes eqs))
              - rounding_tolerance (length eqs) (magnitude_bound (magnitudes eqs)) \<le> a
          \<and> a \<le> Max (set (magnitudes eqs))
              + rounding_tolerance (length eqs) (magnitude_bound (magnitudes eqs)))
     \<and> (length eqs < 2 ^ 52
          \<and> of_nat (length eqs) * magnitude_bound (magnitudes eqs) \<le> 2 ^ 1022 \<longrightarrow>
          (\<exists>a. avgMagnitude (stats eqs) = Fin a))
     \<and> statistics.maxMagnitude (stats eqs) = Max (set (magnitudes eqs))"
proof -
  define ms where "ms = magnitudes eqs"
  define M where "M = magnitude_bound ms"
  define mean where "mean = sum_list ms / of_nat (length eqs)"
  have len: "length ms = length eqs"
    unfolding ms_def using assms(2) by (rule magnitudes_all_present)
  with assms(1) have ne: "ms \<noteq> []" by auto
  have range: "\<forall>m \<in> set ms. Min (set ms) \<le> m \<and> m \<le> Max (set ms)" by simp
  then have M: "\<forall>m \<in> set ms. \<bar>m\<bar> \<le> M"
    by (auto simp: M_def magnitude_bound_def intro: abs_le_max_abs)
  have avg: "avgMagnitude (stats eqs) = fdiv (foldl fadd (Fin 0) ms) (length ms)"
    using assms(1) ne by (simp add: stats_def ms_def Let_def)
  have lo: "Min (set ms) \<le> mean" and hi: "mean \<le> Max (set ms)"
    unfolding mean_def len [symmetric] using ne range by (rule mean_bounds)+
  have near: "\<bar>a - mean\<bar> \<le> rounding_tolerance (length eqs) M"
    if "avgMagnitude (stats eqs) = Fin a" for a
    unfolding mean_def len [symmetric] using ne M that [unfolded avg] by (rule favg_error)
  have within: "Min (set ms) - rounding_tolerance (length eqs) M \<le> a
      \<and> a \<le> Max (set ms) + rounding_tolerance (length eqs) M"
    if "avgMagnitude (stats eqs) = Fin a" for a
    using near [OF that] lo hi by linarith
  have fin: "\<exists>a. avgMagnitude (stats eqs) = Fin a"
    if n: "length eqs < 2 ^ 52" and nM: "of_nat (length eqs) * M \<le> 2 ^ 1022"
  proof -
    from n have "length ms + 1 \<le> 2 ^ 52" by (simp add: len)
    then have G: "(1 + u64) ^ (length ms + 1) \<le> 2" by (rule growth_le_2)
    have "of_nat (length ms) * M + tiny64 < 2 ^ 1023"
      using nM by (simp add: len tiny64_def)
    moreover have "0 \<le> of_nat (length ms) * M + tiny64"
    proof -
      from ne M have "0 \<le> M" by (cases ms) (auto intro: order_trans [OF abs_ge_zero])
      then show ?thesis using tiny64_pos by simp
    qed
    ultimately have "(1 + u64) ^ (length ms + 1) * (of_nat (length ms) * M + tiny64)
                     \<le> 2 * (of_nat (length ms) * M + tiny64)"
      using G by (intro mult_right_mono) simp_all
    also have "\<dots> < 2 ^ 1024"
      using \<open>of_nat (length ms) * M + tiny64 < 2 ^ 1023\<close> by simp
    finally show ?thesis
      unfolding avg using ne M by (intro favg_finite)
  qed
  have "statistics.maxMagnitude (stats eqs) = Max (set ms)"
    using assms(1) ne by (simp add: stats_def ms_def Let_def Math_max_eq_Max)
  with lo hi near within fin show ?thesis
    unfolding mean_def M_def ms_def by blast
qed

theorem average_within_rounding_witness:
  "displayed \<noteq> []
   \<and> map (\<lambda>e. mag (properties e)) displayed
       = [Num (6980579422424269 / 1125899906842624), Num (5404319552844595 / 1125899906842624),
          Num 5]
   \<and> length displayed < 2 ^ 52
   \<and> of_nat (length displayed) * magnitude_bound (magnitudes displayed) \<le> 2 ^ 1022
   \<and> avgMagnitude (stats displayed) = Fin (6004799503160661 / 1125899906842624)
   \<and> Min (set (magnitudes displayed))
        - rounding_tolerance (length displayed) (magnitude_bound (magnitudes displayed))
      \<le> 6004799503160661 / 1125899906842624
   \<and> 6004799503160661 / 1125899906842624
      \<le> Max (set (magnitudes displayed))
        + rounding_tolerance (length displayed) (magnitude_bound (magnitudes displayed))"
proof -
  have ne: "displayed \<noteq> []"
    by (simp add: displayed_eq)
  have present: "\<forall>e \<in> set displayed. \<exists>r. mag (properties e) = Num r"
    unfolding displayed_def by (rule filtered_present)
  have avg: "avgMagnitude (stats displayed) = Fin (6004799503160661 / 1125899906842624)"
    by (simp add: displayed_stats)
  have small: "length displayed < 2 ^ 52
      \<and> of_nat (length displayed) * magnitude_bound (magnitudes displayed) \<le> 2 ^ 1022"
    by (simp add: displayed_magnitudes magnitude_bound_def) (simp add: displayed_eq)
  from average_within_rounding [OF ne present] avg
  have "Min (set (magnitudes displayed))
          - rounding_tolerance (length displayed) (magnitude_bound (magnitudes displayed))
        \<le> 6004799503160661 / 1125899906842624
      \<and> 6004799503160661 / 1125899906842624
        \<le> Max (set (magnitudes displayed))
          + rounding_tolerance (length displayed) (magnitude_bound (magnitudes displayed))"
    by blast
  moreover have "map (\<lambda>e. mag (properties e)) displayed
      = [Num (6980579422424269 / 1125899906842624), Num (5404319552844595 / 1125899906842624),
         Num 5]"
    by (simp add: displayed_eq quake_def)
  ultimately show ?thesis
    using ne avg small by blast
qed

section \<open>The guard against a subset without magnitudes\<close>

text \<open>
  C8. When the subset that is aggregated is an output of the filter, the second guard of
  the aggregation (a non-empty subset none of whose events has a magnitude) is never
  taken: every event of a filter output has a present magnitude, so a non-empty output
  has a non-empty list of magnitudes. On a subset that does reach it, the average, the
  maximum and the significant count are zero and the total is the size of the subset.
\<close>

theorem no_magnitude_branch_unreachable:
  "(\<forall>e \<in> set (filteredEarthquakes snap f). \<exists>r. mag (properties e) = Num r)
   \<and> (filteredEarthquakes snap f \<noteq> [] \<longrightarrow> magnitudes (filteredEarthquakes snap f) \<noteq> [])
   \<and> branch_taken (filteredEarthquakes snap f) \<noteq> NoMagnitudes
   \<and> (branch_taken eqs = NoMagnitudes \<longrightarrow>
        stats eqs = \<lparr>total = length eqs, avgMagnitude = Fin 0, statistics.maxMagnitude = 0, significant = 0\<rparr>)"
proof -
  have present: "\<forall>e \<in> set (filteredEarthquakes snap f). \<exists>r. mag (properties e) = Num r"
    by (rule filtered_present)
  then have len: "length (magnitudes (filteredEarthquakes snap f)) = length (filteredEarthquakes snap f)"
    by (rule magnitudes_all_present)
  have "stats eqs = \<lparr>total = length eqs, avgMagnitude = Fin 0, statistics.maxMagnitude = 0, significant = 0\<rparr>"
    if "branch_taken eqs = NoMagnitudes"
    using that by (simp add: branch_taken_def stats_def split: if_splits)
  with present len show ?thesis
    by (auto simp: branch_taken_def)
qed

theorem no_magnitude_branch_unreachable_witness:
  "filteredEarthquakes (Some \<lparr>features = Some scenario\<rparr>) initial_filters \<noteq> []
   \<and> magnitudes (filteredEarthquakes (Some \<lparr>features = Some scenario\<rparr>) initial_filters) \<noteq> []
   \<and> branch_taken (filteredEarthquakes (Some \<lparr>features = Some scenario\<rparr>) initial_filters) = Aggregated
   \<and> branch_taken [quake ''2'' Null, quake ''5'' Undefined] = NoMagnitudes
   \<and> stats [quake ''2'' Null, quake ''5'' Undefined]
       = \<lparr>total = 2, avgMagnitude = Fin 0, statistics.maxMagnitude = 0, significant = 0\<rparr>"
  using no_magnitude_branch_unreachable
    [of "Some \<lparr>features = Some scenario\<rparr>" initial_filters "[quake ''2'' Null, quake ''5'' Undefined]"]
  by (simp add: filteredEarthquakes_Some scenario_def initial_filters_def quake_def
      spec_included_def scenario_mags branch_taken_def magnitudes_Cons)

section \<open>Crossed bounds\<close>

text \<open>
  C10. When the minimum bound is above the maximum bound, the filter returns the empty
  subset of every event collection and the statistics derived from it are zero in every
  field. The controls reach such a state: each slider emits any value of \<open>[0, 10]\<close>
  whatever the other one holds, for instance a minimum of 5 and then a maximum of 3.
\<close>

theorem crossed_bounds_empty:
  "(filter_state.maxMagnitude f < minMagnitude f \<longrightarrow>
      filteredEarthquakes snap f = []
      \<and> stats (filteredEarthquakes snap f)
          = \<lparr>total = 0, avgMagnitude = Fin 0, statistics.maxMagnitude = 0, significant = 0\<rparr>)
   \<and> list_all enabled [SlideMin 5, SlideMax 3]
   \<and> filter_state.maxMagnitude (foldl handle initial_filters [SlideMin 5, SlideMax 3])
       < minMagnitude (foldl handle initial_filters [SlideMin 5, SlideMax 3])"
proof -
  have "filteredEarthquakes snap f = []" if "filter_state.maxMagnitude f < minMagnitude f"
    using that
    by (cases snap) (auto simp: filteredEarthquakes_Some filteredEarthquakes_None
        spec_included_Num filter_empty_conv)
  then show ?thesis
    by (auto simp: stats_def initial_filters_def slider_value_def)
qed

theorem crossed_bounds_empty_witness:
  "filter_state.maxMagnitude (range_filter 5 3) < minMagnitude (range_filter 5 3)
   \<and> filteredEarthquakes (Some \<lparr>features = Some scenario\<rparr>) (range_filter 5 3) = []
   \<and> total (stats (filteredEarthquakes (Some \<lparr>features = Some scenario\<rparr>) (range_filter 5 3))) = 0"
  using crossed_bounds_empty [of "range_filter 5 3" "Some \<lparr>features = Some scenario\<rparr>"]
  by (simp add: range_filter_def stats_def)

section \<open>The invariant of the filter state\<close>

lemma handle_in_slider_range:
  "in_slider_range f \<Longrightarrow> enabled a \<Longrightarrow> in_slider_range (handle f a)"
  by (cases a) (simp_all add: in_slider_range_def slider_value_def)

lemma foldl_handle_in_slider_range:
  "in_slider_range f \<Longrightarrow> list_all enabled acts \<Longrightarrow> in_slider_range (foldl handle f acts)"
  by (induction acts arbitrary: f) (simp_all add: handle_in_slider_range)

text \<open>
  C7, as the specification states it: \<open>0 \<le> minMagnitude \<le> maxMagnitude \<le> 10\<close> holds
  initially and after every slider update and timeframe change. It does not: from the
  state with bounds 5 and 10, which satisfies it, the maximum slider emits 3, a value of
  its range, and the handler stores it beside the minimum of 5.
\<close>

theorem filter_invariant_counterexample:
  "spec_invariant (handle initial_filters (SlideMin 5))
   \<and> enabled (SlideMax 3)
   \<and> \<not> spec_invariant (handle (handle initial_filters (SlideMin 5)) (SlideMax 3))"
  by (simp add: spec_invariant_def initial_filters_def slider_value_def)

text \<open>
  C7, amended. The initial state (timeframe day, bounds 0 and 10) satisfies
  \<open>0 \<le> minMagnitude \<le> maxMagnitude \<le> 10\<close>. Every user mutation keeps each bound within
  \<open>[0, 10]\<close>, so both bounds are within \<open>[0, 10]\<close> after any sequence of mutations. A
  timeframe change keeps \<open>minMagnitude \<le> maxMagnitude\<close> as well; a slider update keeps it
  exactly when the new value does not cross the other bound, which the sliders do not
  enforce.
\<close>

theorem filter_state_bounds:
  "spec_invariant initial_filters
   \<and> (in_slider_range f \<and> enabled a \<longrightarrow> in_slider_range (handle f a))
   \<and> (list_all enabled acts \<longrightarrow> in_slider_range (foldl handle initial_filters acts))
   \<and> (spec_invariant f \<longrightarrow> spec_invariant (handle f (SelectTimeframe tf)))
   \<and> (spec_invariant f \<and> enabled (SlideMin v) \<longrightarrow>
        (spec_invariant (handle f (SlideMin v)) \<longleftrightarrow> v \<le> filter_state.maxMagnitude f))
   \<and> (spec_invariant f \<and> enabled (SlideMax w) \<longrightarrow>
        (spec_invariant (handle f (SlideMax w)) \<longleftrightarrow> minMagnitude f \<le> w))"
proof -
  have "in_slider_range initial_filters"
    by (simp add: in_slider_range_def initial_filters_def)
  then have "in_slider_range (foldl handle initial_filters acts)" if "list_all enabled acts"
    using that by (rule foldl_handle_in_slider_range)
  moreover have "spec_invariant initial_filters"
    by (simp add: spec_invariant_def initial_filters_def)
  ultimately show ?thesis
    by (auto simp: handle_in_slider_range spec_invariant_def slider_value_def)
qed

theorem filter_state_bounds_witness:
  "list_all enabled [SlideMin 5, SelectTimeframe Week, SlideMax 3]
   \<and> in_slider_range (foldl handle initial_filters [SlideMin 5, SelectTimeframe Week, SlideMax 3])
   \<and> spec_invariant (range_filter 2 6) \<and> enabled (SlideMin 4) \<and> enabled (SlideMax 1)
   \<and> spec_invariant (handle (range_filter 2 6) (SelectTimeframe Month))
   \<and> spec_invariant (handle (range_filter 2 6) (SlideMin 4))
   \<and> \<not> spec_invariant (handle (range_filter 2 6) (SlideMax 1))"
  using filter_state_bounds
    [of "range_filter 2 6" "SlideMin 4" "[SlideMin 5, SelectTimeframe Week, SlideMax 3]" Month 4 1]
  by (simp add: range_filter_def spec_invariant_def slider_value_def in_slider_range_def)

section \<open>A refresh that fails\<close>

lemma QuakeTrakr_feed:
  "QuakeTrakr \<lparr>data = Some \<lparr>features = Some es\<rparr>, error = err, isLoading = False\<rparr> f
   = Inr \<lparr>statistics_section =
            (if err then FailedToLoad
             else StatsCards (stats (filteredEarthquakes (Some \<lparr>features = Some es\<rparr>) f))
                    (label (timeframe f))),
          showing = Some (length (filteredEarthquakes (Some \<lparr>features = Some es\<rparr>) f), length es),
          list_section =
            (if filteredEarthquakes (Some \<lparr>features = Some es\<rparr>) f = [] then NoEarthquakesFound
             else EarthquakeCards (filteredEarthquakes (Some \<lparr>features = Some es\<rparr>) f))\<rparr>"
  by (simp add: QuakeTrakr_def Let_def)

lemma refresh_feed:
  "refresh (Response status (Json d)) s = \<lparr>data = Some d, error = False, isLoading = False\<rparr>"
  by (simp add: refresh_def fetch_succeeded_def)

lemma refresh_rejected:
  "fetcher outcome = Inl err \<Longrightarrow>
   refresh outcome \<lparr>data = snap, error = e, isLoading = l\<rparr>
   = \<lparr>data = snap, error = True, isLoading = False\<rparr>"
  by (simp add: refresh_def fetch_failed_def)

text \<open>
  C9, as the specification states it: after a successful fetch, a refresh that fails
  leaves the displayed subset and the displayed statistics unchanged and shows an error
  indicator, and no error is fatal. Two things differ. The statistics do not stay on the
  page: after a refresh without a response the statistics section renders the failure
  card in place of the four statistics cards. And an error can be fatal: a response of
  status 503 whose body is a JSON document without features is a success for the
  fetcher, replaces the snapshot, and the render throws on it.
\<close>

theorem failed_refresh_counterexample:
  "QuakeTrakr good_snapshot initial_filters
     = Inr \<lparr>statistics_section = StatsCards (stats displayed) ''Past Day'',
            showing = Some (3, 4), list_section = EarthquakeCards displayed\<rparr>
   \<and> QuakeTrakr (refresh NetworkFailure good_snapshot) initial_filters
     = Inr \<lparr>statistics_section = FailedToLoad,
            showing = Some (3, 4), list_section = EarthquakeCards displayed\<rparr>
   \<and> QuakeTrakr (refresh (Response 503 (Json \<lparr>features = None\<rparr>)) good_snapshot) initial_filters
     = Inl TypeError"
proof -
  have shown: "filteredEarthquakes (Some \<lparr>features = Some scenario\<rparr>) initial_filters = displayed"
    by (simp add: displayed_def)
  have sizes: "length displayed = 3" "displayed \<noteq> []" "length scenario = 4"
    by (simp_all add: displayed_eq scenario_def)
  have day: "label (timeframe initial_filters) = ''Past Day''"
    by (simp add: initial_filters_def)
  have good: "good_snapshot
      = \<lparr>data = Some \<lparr>features = Some scenario\<rparr>, error = False, isLoading = False\<rparr>"
    by (simp add: good_snapshot_def refresh_feed)
  have "QuakeTrakr (refresh (Response 503 (Json \<lparr>features = None\<rparr>)) good_snapshot) initial_filters
      = Inl TypeError"
    by (simp add: refresh_feed QuakeTrakr_def Let_def)
  then show ?thesis
    by (simp add: good refresh_rejected QuakeTrakr_feed shown sizes day)
qed

text \<open>
  C9, amended. After a successful fetch of a feed document, a refresh that fails for the
  fetcher of the page (the request gets no response, or the body of the response is not
  JSON) leaves the snapshot, the filtered subset and the statistics derived from it
  unchanged, for every setting of the filter controls. The list section and the line
  "Showing n of m" render as before the failure, and the statistics section renders the
  failure card, which is the error indicator, in place of the statistics cards, until
  the next successful fetch of a feed document. Such a failure is not fatal and the page
  stays interactive: it renders, without throwing, for every setting of the filter
  controls, also after a further action on them.
\<close>

theorem failed_refresh_keeps_snapshot:
  assumes "fetcher outcome = Inl err"
  shows
    "let before = refresh (Response status (Json \<lparr>features = Some es\<rparr>)) s;
         after = refresh outcome before;
         shown = filteredEarthquakes (Some \<lparr>features = Some es\<rparr>) f;
         moved = filteredEarthquakes (Some \<lparr>features = Some es\<rparr>) (handle f a)
     in data after = Some \<lparr>features = Some es\<rparr>
        \<and> error after
        \<and> filteredEarthquakes (data after) f = shown
        \<and> stats (filteredEarthquakes (data after) f) = stats shown
        \<and> QuakeTrakr before f
            = Inr \<lparr>statistics_section = StatsCards (stats shown) (label (timeframe f)),
                   showing = Some (length shown, length es),
                   list_section = (if shown = [] then NoEarthquakesFound else EarthquakeCards shown)\<rparr>
        \<and> QuakeTrakr after f
            = Inr \<lparr>statistics_section = FailedToLoad,
                   showing = Some (length shown, length es),
                   list_section = (if shown = [] then NoEarthquakesFound else EarthquakeCards shown)\<rparr>
        \<and> QuakeTrakr after (handle f a)
            = Inr \<lparr>statistics_section = FailedToLoad,
                   showing = Some (length moved, length es),
                   list_section = (if moved = [] then NoEarthquakesFound else EarthquakeCards moved)\<rparr>
        \<and> QuakeTrakr (refresh (Response status' (Json \<lparr>features = Some es'\<rparr>)) after) f
            = Inr \<lparr>statistics_section =
                     StatsCards (stats (filteredEarthquakes (Some \<lparr>features = Some es'\<rparr>) f))
                       (label (timeframe f)),
                   showing =
                     Some (length (filteredEarthquakes (Some \<lparr>features = Some es'\<rparr>) f), length es'),
                   list_section =
                     (if filteredEarthquakes (Some \<lparr>features = Some es'\<rparr>) f = []
                      then NoEarthquakesFound
                      else EarthquakeCards (filteredEarthquakes (Some \<lparr>features = Some es'\<rparr>) f))\<rparr>"
proof -
  have after: "refresh outcome (refresh (Response status (Json \<lparr>features = Some es\<rparr>)) s)
      = \<lparr>data = Some \<lparr>features = Some es\<rparr>, error = True, isLoading = False\<rparr>"
    using assms by (simp add: refresh_feed refresh_rejected)
  show ?thesis
    unfolding Let_def after by (simp add: refresh_feed QuakeTrakr_feed)
qed

theorem failed_refresh_keeps_snapshot_witness:
  "fetcher (Response 500 NotJson) = Inl SyntaxError
   \<and> QuakeTrakr (refresh (Response 500 NotJson) good_snapshot) initial_filters
     = Inr \<lparr>statistics_section = FailedToLoad,
            showing = Some (3, 4), list_section = EarthquakeCards displayed\<rparr>
   \<and> QuakeTrakr (refresh (Response 500 NotJson) good_snapshot)
       (handle initial_filters (SlideMin 7))
     = Inr \<lparr>statistics_section = FailedToLoad,
            showing = Some (0, 4), list_section = NoEarthquakesFound\<rparr>"
proof -
  have rejected: "fetcher (Response 500 NotJson) = Inl SyntaxError"
    by simp
  have shown: "filteredEarthquakes (Some \<lparr>features = Some scenario\<rparr>) initial_filters = displayed"
    by (simp add: displayed_def)
  have sizes: "length displayed = 3" "displayed \<noteq> []" "length scenario = 4"
    by (simp_all add: displayed_eq scenario_def)
  have moved: "filteredEarthquakes (Some \<lparr>features = Some scenario\<rparr>)
      (initial_filters\<lparr>minMagnitude := 7\<rparr>) = []"
    by (simp add: filteredEarthquakes_Some scenario_def quake_def spec_included_def
        scenario_mags initial_filters_def)
  from failed_refresh_keeps_snapshot
    [OF rejected, of 200 scenario first_load initial_filters "SlideMin 7"]
  show ?thesis
    by (simp add: Let_def good_snapshot_def shown sizes moved)
qed

end
